theory Spec2Isabelle
  imports Complex_Main "HOL-Library.Signed_Division" "HOL-Library.Sublist"
begin

section \<open>The launch scripts\<close>

text \<open>
  The two launch scripts are Bash scripts without \<^verbatim>\<open>set -e\<close>: they run their commands
  one after the other whatever the exit status of each, unless an explicit \<^verbatim>\<open>exit\<close> stops
  them. A run is modelled by the list of things it does, in order, and its exit status.
  An external command is recorded with its argument vector after all expansions; every
  expansion in the command lines of the scripts is quoted, so each one yields exactly one
  argument.
\<close>

datatype action =
    Echo string
  | Run "string list"

text \<open>
  What a script reads from its environment: the positional parameters, the output of
  \<^verbatim>\<open>basename "$0"\<close>, whether \<^verbatim>\<open>setup.py\<close> is a regular file of the current directory,
  the variable \<^verbatim>\<open>WANDB_TOKEN\<close> (\<open>None\<close> when unset), the bytes that \<^verbatim>\<open>/dev/urandom\<close>
  delivers, and the exit status of each external command.
\<close>

record invocation =
  args :: "string list"
  script_base :: string
  setup_py :: bool
  WANDB_TOKEN :: "string option"
  urandom :: string
  cmd_status :: "string list \<Rightarrow> nat"

subsection \<open>Shell expansions and arithmetic\<close>

definition positional :: "string list \<Rightarrow> nat \<Rightarrow> string" where
  \<comment> \<open>\<^verbatim>\<open>$n\<close> for \<open>n \<ge> 1\<close>: the empty string when there are fewer parameters\<close>
  "positional as n = (if 1 \<le> n \<and> n \<le> length as then as ! (n - 1) else [])"

definition expand :: "string option \<Rightarrow> string" where
  \<comment> \<open>\<^verbatim>\<open>$VAR\<close>: an unset variable expands to the empty string\<close>
  "expand v = (case v of None \<Rightarrow> [] | Some s \<Rightarrow> s)"

definition wrap64 :: "int \<Rightarrow> int" where
  \<comment> \<open>Bash evaluates arithmetic in 64-bit two's complement\<close>
  "wrap64 k = (k + 2 ^ 63) mod 2 ^ 64 - 2 ^ 63"

definition bash_mul :: "int \<Rightarrow> int \<Rightarrow> int" where
  "bash_mul a b = wrap64 (a * b)"

definition bash_add :: "int \<Rightarrow> int \<Rightarrow> int" where
  "bash_add a b = wrap64 (a + b)"

definition bash_div :: "int \<Rightarrow> int \<Rightarrow> int" where
  \<comment> \<open>\<^verbatim>\<open>/\<close> truncates towards zero; the scripts divide by non-zero constants only\<close>
  "bash_div a b = wrap64 (a sdiv b)"

fun digits10 :: "nat \<Rightarrow> string" where
  "digits10 n =
     (if n < 10 then [''0123456789'' ! n]
      else digits10 (n div 10) @ [''0123456789'' ! (n mod 10)])"

declare digits10.simps [simp del]

definition show_int :: "int \<Rightarrow> string" where
  \<comment> \<open>the decimal text of an arithmetic expansion\<close>
  "show_int k = (if k < 0 then CHR ''-'' # digits10 (nat (- k)) else digits10 (nat k))"

subsection \<open>The random part of the run id\<close>

fun head_lines :: "nat \<Rightarrow> string \<Rightarrow> string" where
  \<comment> \<open>\<^verbatim>\<open>head\<close>: the input up to and including its \<open>n\<close>-th newline\<close>
  "head_lines 0 cs = []"
| "head_lines (Suc n) [] = []"
| "head_lines (Suc n) (c # cs) =
     c # (if c = CHR 0x0A then head_lines n cs else head_lines (Suc n) cs)"

definition alnum :: "char \<Rightarrow> bool" where
  \<comment> \<open>the set \<^verbatim>\<open>A-Za-z0-9\<close> of \<^verbatim>\<open>tr\<close>\<close>
  "alnum c = (let n = (of_char c :: nat) in
     (65 \<le> n \<and> n \<le> 90) \<or> (97 \<le> n \<and> n \<le> 122) \<or> (48 \<le> n \<and> n \<le> 57))"

definition gen_num_id :: "string \<Rightarrow> string" where
  \<comment> \<open>\<^verbatim>\<open>head /dev/urandom | tr -dc A-Za-z0-9 | head -c 13\<close>\<close>
  "gen_num_id rnd = take 13 (filter alnum (head_lines 10 rnd))"

subsection \<open>Constants shared by the scripts\<close>

definition IMAGE :: string where "IMAGE = ''nvidian/pytorch:19.12-py3''"
definition GPU_MEM :: int where "GPU_MEM = 32"
definition NUM_GPU :: int where "NUM_GPU = 8"
definition OPT :: string where "OPT = ''O2''"
definition WS :: string where "WS = ''stan''"
definition WORKSPACE :: string where "WORKSPACE = ''/ws''"
definition RESULT :: string where "RESULT = ''/result''"
definition DATASET_SIZE :: int where "DATASET_SIZE = 354780"
definition NUM_EPOCHS :: int where "NUM_EPOCHS = 100"

definition usage :: "invocation \<Rightarrow> string" where
  "usage iv = ''Usage: ./'' @ script_base iv @ '' [experiment name id]''"

definition bad_arguments :: "invocation \<Rightarrow> bool" where
  \<comment> \<open>\<^verbatim>\<open>[[ -z $1 || "$#" -ne 1 ]]\<close>\<close>
  "bad_arguments iv = (positional (args iv) 1 = [] \<or> length (args iv) \<noteq> 1)"

definition tmp_dir_of :: "string \<Rightarrow> string" where
  "tmp_dir_of run_id = ''/tmp/nemos/'' @ run_id"

definition upload_destination :: "string \<Rightarrow> string" where
  "upload_destination run_id = ''nemos/'' @ run_id"

definition save_state :: "string \<Rightarrow> action list" where
  \<comment> \<open>the SAVE STATE section, the same in both scripts once the run id is chosen\<close>
  "save_state run_id =
     [Echo (''Tmp dir: '' @ tmp_dir_of run_id),
      Run [''mkdir'', ''-p'', tmp_dir_of run_id],
      Run [''rsync'', ''-r'', ''.'', tmp_dir_of run_id, ''--exclude'', ''.git'',
           ''--filter=:- .gitignore''],
      Run [''ngc'', ''workspace'', ''upload'', WS, ''--source'', tmp_dir_of run_id,
           ''--destination'', upload_destination run_id]]"

definition instance_name :: string where
  "instance_name = ''dgx1v.'' @ show_int GPU_MEM @ ''g.'' @ show_int NUM_GPU @ ''.norm''"

subsection \<open>The duration-prediction script\<close>

definition batch_size :: int where
  "batch_size = bash_mul GPU_MEM 6"

definition total_steps :: int where
  "total_steps =
     bash_mul (bash_add (bash_div DATASET_SIZE (bash_mul batch_size NUM_GPU)) 1) NUM_EPOCHS"

definition warmup_flag :: string where
  "warmup_flag = ''--warmup='' @ show_int (bash_div total_steps 50)"

definition durs_script :: string where "durs_script = ''examples/tts/fasterspeech_durs.py''"
definition durs_config :: string where
  "durs_config = ''examples/tts/configs/fasterspeech-durs-lj.yaml''"

definition durs_id :: "string \<Rightarrow> string \<Rightarrow> string" where
  "durs_id name_id num_id = ''durs-lj_'' @ name_id @ ''_'' @ num_id"

text \<open>
  The here-document of the command: its delimiter is unquoted, so variables and
  arithmetic are expanded and a backslash before a newline joins the lines; \<^verbatim>\<open>read\<close>
  drops the final newline. Every line but the last ends in a backslash, so the command
  is the lines one after the other, on one line.
\<close>

definition durs_heredoc :: "string \<Rightarrow> string \<Rightarrow> string \<Rightarrow> string list" where
  \<comment> \<open>one element for each line of the here-document\<close>
  "durs_heredoc run_id token name_id =
     [''nvidia-smi '',
      ''&& apt-get update && apt-get install -y libsndfile1 && pip install -U librosa '',
      ''&& cp -R '' @ WORKSPACE @ ''/nemos/'' @ run_id
        @ '' /nemo && cd /nemo && pip install .[all] '',
      ''&& pip install -U wandb && wandb login '' @ token @ '' '',
      ''&& python -m torch.distributed.launch --nproc_per_node='' @ show_int NUM_GPU
        @ '' '' @ durs_script @ '' '',
      ''--amp_opt_level='' @ OPT @ '' '',
      ''--model_config='' @ durs_config @ '' '',
      ''--batch_size='' @ show_int batch_size @ '' '',
      ''--train_freq=10 '',
      ''--eval_freq=100 '',
      warmup_flag @ '' '',
      ''--num_epochs='' @ show_int NUM_EPOCHS @ '' '',
      ''--work_dir='' @ RESULT @ '' '',
      ''--wdb_name='' @ name_id @ '' '',
      ''--wdb_tags=durs,ljspeech,opt '',
      ''--train_dataset=/data/libritts/train.json '',
      ''--train_durs=/data/librimeta/durs/libritts_300epochs-qn15x5-eqlen_all-1s_22k/train-all.npy '',
      ''--eval_names '',
      ''eval '',
      ''test '',
      ''--eval_datasets '',
      ''/data/ljspeech/split3/eval.json '',
      ''/data/ljspeech/split3/test.json '',
      ''--eval_durs '',
      ''/data/librimeta/durs/ljspeech_300epochs-qn15x5-eqlen_all-1s_split3/eval.npy '',
      ''/data/librimeta/durs/ljspeech_300epochs-qn15x5-eqlen_all-1s_split3/test.npy'']"

definition durs_cmd :: "string \<Rightarrow> string \<Rightarrow> string \<Rightarrow> string" where
  "durs_cmd run_id token name_id = concat (durs_heredoc run_id token name_id)"

definition durs_batch_run :: "string \<Rightarrow> string \<Rightarrow> string list" where
  "durs_batch_run name_id cmd =
     [''ngc'', ''batch'', ''run'',
      ''--name'', name_id,
      ''--image'', IMAGE,
      ''--ace'', ''nv-us-west-2'',
      ''--instance'', instance_name,
      ''--result'', RESULT,
      ''--datasetid'', ''58106:/data/libritts'',
      ''--datasetid'', ''59943:/data/ljspeech'',
      ''--datasetid'', ''59319:/data/librimeta'',
      ''--workspace'', WS @ '':'' @ WORKSPACE,
      ''--commandline'', cmd]"

definition launch_durs :: "invocation \<Rightarrow> action list \<times> nat" where
  "launch_durs iv =
     (if bad_arguments iv then ([Echo (usage iv)], 1)
      else if \<not> setup_py iv then ([Echo ''Script should be ran from project root.''], 1)
      else if expand (WANDB_TOKEN iv) = [] then ([Echo ''Please, provide WanDB token.''], 1)
      else
        let name_id = positional (args iv) 1;
            num_id = gen_num_id (urandom iv);
            run_id = durs_id name_id num_id;
            cmd = durs_cmd run_id (expand (WANDB_TOKEN iv)) name_id;
            fire = durs_batch_run name_id cmd
        in (Echo ''Updating source code...'' # save_state run_id @ [Run fire],
            cmd_status iv fire))"

subsection \<open>The speech-recognition script\<close>

definition asr_script :: string where "asr_script = ''examples/asr/quartznet.py''"
definition asr_config :: string where
  "asr_config = ''examples/asr/configs/quartznet15x5-libritts-durs.yaml''"

definition asr_id :: "string \<Rightarrow> string \<Rightarrow> string" where
  "asr_id name_id num_id = name_id @ ''_'' @ num_id"

definition asr_heredoc :: "string \<Rightarrow> string list" where
  "asr_heredoc run_id =
     [''nvidia-smi '',
      ''&& apt-get update && apt-get install -y libsndfile1 '',
      ''&& cp -R '' @ WORKSPACE @ ''/nemos/'' @ run_id
        @ '' /nemo && cd /nemo && pip install .[all] '',
      ''&& python -m torch.distributed.launch --nproc_per_node='' @ show_int NUM_GPU
        @ '' '' @ asr_script @ '' '',
      ''--num_epochs=150 '',
      ''--eval_batch_size=32 '',
      ''--model_config='' @ asr_config @ '' '',
      ''--checkpoint_dir='' @ RESULT @ '' '',
      ''--checkpoint_save_freq=10000 '',
      ''--train_dataset=/manifests/libritts/train-all.json '',
      ''--eval_datasets '',
      ''/manifests/libritts/dev-clean.json '',
      ''/manifests/libritts/dev-other.json '',
      ''/manifests/libritts/test-clean.json '',
      ''/manifests/libritts/test-other.json'']"

definition asr_cmd :: "string \<Rightarrow> string" where
  "asr_cmd run_id = concat (asr_heredoc run_id)"

definition asr_batch_run :: "string \<Rightarrow> string \<Rightarrow> string list" where
  "asr_batch_run name_id cmd =
     [''ngc'', ''batch'', ''run'',
      ''--name'', name_id,
      ''--image'', IMAGE,
      ''--ace'', ''nv-us-west-2'',
      ''--instance'', instance_name,
      ''--result'', RESULT,
      ''--datasetid'', ''58106:/data/libritts'',
      ''--datasetid'', ''58404:/manifests/libritts'',
      ''--workspace'', WS @ '':'' @ WORKSPACE,
      ''--commandline'', cmd]"

definition launch_asr :: "invocation \<Rightarrow> action list \<times> nat" where
  "launch_asr iv =
     (if bad_arguments iv then ([Echo (usage iv)], 1)
      else if \<not> setup_py iv then ([Echo ''Script should be runned from project root.''], 1)
      else
        let name_id = positional (args iv) 1;
            num_id = gen_num_id (urandom iv);
            run_id = asr_id name_id num_id;
            cmd = asr_cmd run_id;
            fire = asr_batch_run name_id cmd
        in (Echo ''Updating source code...'' # save_state run_id @ [Run fire],
            cmd_status iv fire))"

subsection \<open>Reading a run\<close>

datatype step = Print | Make_dir | Copy_tree | Upload | Launch | Other_command

fun step_of :: "action \<Rightarrow> step" where
  "step_of (Echo msg) = Print"
| "step_of (Run argv) =
     (if take 1 argv = [''mkdir''] then Make_dir
      else if take 1 argv = [''rsync''] then Copy_tree
      else if take 3 argv = [''ngc'', ''workspace'', ''upload''] then Upload
      else if take 3 argv = [''ngc'', ''batch'', ''run''] then Launch
      else Other_command)"

definition full_run :: "step list" where
  "full_run = [Print, Print, Make_dir, Copy_tree, Upload, Launch]"

fun argv_of :: "action \<Rightarrow> string list" where
  "argv_of (Echo msg) = []"
| "argv_of (Run argv) = argv"

fun flag_value :: "string \<Rightarrow> string list \<Rightarrow> string option" where
  \<comment> \<open>the value of a flag in a list of flags, each followed by its value\<close>
  "flag_value f (a # b # rest) = (if a = f then Some b else flag_value f rest)"
| "flag_value f rest = None"

definition upload_flag :: "string \<Rightarrow> action \<Rightarrow> string option" where
  \<comment> \<open>the flags of \<^verbatim>\<open>ngc workspace upload\<close> come after the name of the workspace\<close>
  "upload_flag f a = flag_value f (drop 4 (argv_of a))"

definition launch_flag :: "string \<Rightarrow> action \<Rightarrow> string option" where
  \<comment> \<open>the flags of \<^verbatim>\<open>ngc batch run\<close>\<close>
  "launch_flag f a = flag_value f (drop 3 (argv_of a))"

definition uploaded_to :: "action list \<Rightarrow> string option list" where
  "uploaded_to tr = map (upload_flag ''--destination'') (filter (\<lambda>a. step_of a = Upload) tr)"

definition commandlines :: "action list \<Rightarrow> string option list" where
  "commandlines tr = map (launch_flag ''--commandline'') (filter (\<lambda>a. step_of a = Launch) tr)"

subsection \<open>Splitting a text into words\<close>

fun fields :: "(char \<Rightarrow> bool) \<Rightarrow> string \<Rightarrow> string \<Rightarrow> string list" where
  \<comment> \<open>the maximal runs of non-separators; the second argument is the run being read\<close>
  "fields sep w [] = (if w = [] then [] else [w])"
| "fields sep w (c # cs) =
     (if sep c then (if w = [] then fields sep [] cs else w # fields sep [] cs)
      else fields sep (w @ [c]) cs)"

section \<open>The notebooks\<close>


datatype exn =
    OSError nat string string
  | ValueError string
  | KeyError
  | IndexError

definition dict_get :: "('k \<rightharpoonup> 'v) \<Rightarrow> 'k \<Rightarrow> exn + 'v" where
  \<comment> \<open>\<^verbatim>\<open>d[k]\<close>\<close>
  "dict_get d k = (case d k of None \<Rightarrow> Inl KeyError | Some v \<Rightarrow> Inr v)"

definition np_index :: "'a list \<Rightarrow> nat \<Rightarrow> exn + 'a" where
  \<comment> \<open>\<^verbatim>\<open>a[j]\<close> for an index that is not negative\<close>
  "np_index a j = (if j < length a then Inr (a ! j) else Inl IndexError)"

subsection \<open>The checkpoint cells\<close>

definition ENOENT :: nat where "ENOENT = 2"

definition strerror :: "nat \<Rightarrow> string" where
  \<comment> \<open>\<^verbatim>\<open>os.strerror\<close>, of which the notebooks use the value at ENOENT only\<close>
  "strerror n = (if n = ENOENT then ''No such file or directory'' else ''Unknown error'')"

definition path_join :: "string \<Rightarrow> string \<Rightarrow> string" where
  \<comment> \<open>\<^verbatim>\<open>os.path.join\<close> of two POSIX paths\<close>
  "path_join a b =
     (if take 1 b = ''/'' then b
      else if a = [] \<or> last a = CHR ''/'' then a @ b
      else a @ ''/'' @ b)"

definition hex_digit :: "nat \<Rightarrow> char" where
  "hex_digit n = ''0123456789abcdef'' ! (n mod 16)"

definition repr_char :: "char \<Rightarrow> char \<Rightarrow> string" where
  "repr_char q c =
     (let n = (of_char c :: nat) in
      if c = q \<or> c = CHR 0x5C then [CHR 0x5C, c]
      else if c = CHR 0x09 then [CHR 0x5C, CHR ''t'']
      else if c = CHR 0x0A then [CHR 0x5C, CHR ''n'']
      else if c = CHR 0x0D then [CHR 0x5C, CHR ''r'']
      else if n < 32 \<or> 127 \<le> n then [CHR 0x5C, CHR ''x'', hex_digit (n div 16), hex_digit n]
      else [c])"

definition py_repr :: "string \<Rightarrow> string" where
  \<comment> \<open>\<^verbatim>\<open>repr\<close> of a string: quoted, with the special characters escaped\<close>
  "py_repr s =
     (let q = (if CHR 0x27 \<in> set s \<and> CHR 0x22 \<notin> set s then CHR 0x22 else CHR 0x27)
      in q # concat (map (repr_char q) s) @ [q])"

fun message :: "exn \<Rightarrow> string" where
  \<comment> \<open>\<^verbatim>\<open>str(e)\<close> of the exceptions the notebooks raise themselves; the text of a
     \<open>KeyError\<close> or \<open>IndexError\<close> is left unspecified\<close>
  "message (OSError n msg filename) =
     ''[Errno '' @ show_int (int n) @ ''] '' @ msg @ '': '' @ py_repr filename"
| "message (ValueError msg) = msg"

fun file_not_found :: "exn \<Rightarrow> bool" where
  "file_not_found (OSError n msg filename) = (n = ENOENT)"
| "file_not_found e = False"

text \<open>
  The file system is a predicate \<open>exists\<close> on paths (\<^verbatim>\<open>os.path.exists\<close>); the model type
  is the variable the first cell sets. Each cell returns the paths it has checked.
\<close>

definition qa_base_checkpoint_path :: "string \<rightharpoonup> string" where
  "qa_base_checkpoint_path =
     [''biobert'' \<mapsto> ''./checkpoints/biobert/qa_squad'',
      ''biomegatron'' \<mapsto> ''./checkpoints/biomegatron/qa_squad'']"

definition qa_checkpoint_cell :: "(string \<Rightarrow> bool) \<Rightarrow> string \<Rightarrow> exn + string list" where
  "qa_checkpoint_cell exists model_type =
     (case dict_get qa_base_checkpoint_path model_type of Inl e \<Rightarrow> Inl e | Inr base \<Rightarrow>
        let CHECKPOINT_ENCODER = path_join base ''BERT.pt'';
            CHECKPOINT_HEAD = path_join base ''TokenClassifier.pt'';
            CHECKPOINT_CONFIG = path_join base ''bert_config.json''
        in if \<not> exists CHECKPOINT_ENCODER
             then Inl (OSError ENOENT (strerror ENOENT) CHECKPOINT_ENCODER)
           else if \<not> exists CHECKPOINT_HEAD
             then Inl (OSError ENOENT (strerror ENOENT) CHECKPOINT_HEAD)
           else if \<not> exists CHECKPOINT_CONFIG
             then Inl (OSError ENOENT (strerror ENOENT) CHECKPOINT_CONFIG)
           else Inr [CHECKPOINT_ENCODER, CHECKPOINT_HEAD, CHECKPOINT_CONFIG])"

definition re_base_checkpoint_path :: "string \<rightharpoonup> string" where
  "re_base_checkpoint_path =
     [''biobert'' \<mapsto> ''./checkpoints/biobert/'',
      ''biomegatron'' \<mapsto> ''./checkpoints/biomegatron/'']"

definition re_checkpoint_cell :: "(string \<Rightarrow> bool) \<Rightarrow> string \<Rightarrow> exn + string list" where
  "re_checkpoint_cell exists model_type =
     (case dict_get re_base_checkpoint_path model_type of Inl e \<Rightarrow> Inl e | Inr base \<Rightarrow>
        let CHECKPOINT_ENCODER = path_join base ''BERT.pt'';
            CHECKPOINT_CONFIG = path_join base ''bert_config.json''
        in if \<not> exists CHECKPOINT_ENCODER
             then Inl (OSError ENOENT (strerror ENOENT) CHECKPOINT_ENCODER)
           else if \<not> exists CHECKPOINT_CONFIG
             then Inl (OSError ENOENT (strerror ENOENT) CHECKPOINT_CONFIG)
           else Inr [CHECKPOINT_ENCODER, CHECKPOINT_CONFIG])"

definition qa_paths :: "string \<Rightarrow> string list" where
  \<comment> \<open>the paths the question-answering notebook checks, in the order of its checks\<close>
  "qa_paths model_type =
     (case qa_base_checkpoint_path model_type of None \<Rightarrow> []
      | Some base \<Rightarrow> map (path_join base) [''BERT.pt'', ''TokenClassifier.pt'', ''bert_config.json''])"

definition re_paths :: "string \<Rightarrow> string list" where
  "re_paths model_type =
     (case re_base_checkpoint_path model_type of None \<Rightarrow> []
      | Some base \<Rightarrow> map (path_join base) [''BERT.pt'', ''bert_config.json''])"

subsection \<open>Decoding the predictions of the punctuation and capitalization model\<close>

definition isspace :: "char \<Rightarrow> bool" where
  \<comment> \<open>\<^verbatim>\<open>str.isspace\<close> of an ASCII character: tab to carriage return, the four separators, space\<close>
  "isspace c = (let n = (of_char c :: nat) in (9 \<le> n \<and> n \<le> 13) \<or> (28 \<le> n \<and> n \<le> 32))"


definition split :: "string \<Rightarrow> string list" where
  \<comment> \<open>\<^verbatim>\<open>str.split()\<close> without arguments\<close>
  "split s = fields isspace [] s"

definition upper_char :: "char \<Rightarrow> char" where
  \<comment> \<open>upper and lower case of an ASCII character\<close>
  "upper_char c = (let n = (of_char c :: nat) in if 97 \<le> n \<and> n \<le> 122 then char_of (n - 32) else c)"

definition lower_char :: "char \<Rightarrow> char" where
  "lower_char c = (let n = (of_char c :: nat) in if 65 \<le> n \<and> n \<le> 90 then char_of (n + 32) else c)"

definition capitalize :: "string \<Rightarrow> string" where
  \<comment> \<open>\<^verbatim>\<open>str.capitalize\<close> of ASCII text: the first character in upper case, the others in
     lower case\<close>
  "capitalize w = (case w of [] \<Rightarrow> [] | c # cs \<Rightarrow> upper_char c # map lower_char cs)"

definition ids_to_labels :: "(string \<times> int) list \<Rightarrow> (int \<rightharpoonup> string)" where
  \<comment> \<open>\<^verbatim>\<open>{label_ids[k]: k for k in label_ids}\<close>, the dictionary given by its items in order\<close>
  "ids_to_labels label_ids = fold (\<lambda>(k, v) d. d(v \<mapsto> k)) label_ids Map.empty"


fun word_loop ::
  "(int \<rightharpoonup> string) \<Rightarrow> (int \<rightharpoonup> string) \<Rightarrow> int list \<Rightarrow> int list \<Rightarrow>
   (nat \<times> string) list \<Rightarrow> string \<Rightarrow> exn + string" where
  "word_loop punct_ids_to_labels capit_ids_to_labels punct_pred capit_pred [] output =
     Inr output"
| "word_loop punct_ids_to_labels capit_ids_to_labels punct_pred capit_pred ((j, w) # rest) output =
     (case np_index punct_pred j of Inl e \<Rightarrow> Inl e | Inr punct_id \<Rightarrow>
     (case dict_get punct_ids_to_labels punct_id of Inl e \<Rightarrow> Inl e | Inr punct_label \<Rightarrow>
     (case np_index capit_pred j of Inl e \<Rightarrow> Inl e | Inr capit_id \<Rightarrow>
     (case dict_get capit_ids_to_labels capit_id of Inl e \<Rightarrow> Inl e | Inr capit_label \<Rightarrow>
        let w1 = (if capit_label \<noteq> ''O'' then capitalize w else w);
            output1 = output @ w1;
            output2 = (if punct_label \<noteq> ''O'' then output1 @ punct_label else output1);
            output3 = output2 @ '' ''
        in word_loop punct_ids_to_labels capit_ids_to_labels punct_pred capit_pred rest
             output3))))"












section \<open>Example inputs\<close>

definition plain_invocation :: invocation where
  "plain_invocation =
     \<lparr>args = [''exp''], script_base = ''launch.sh'', setup_py = True,
      WANDB_TOKEN = Some ''tok'', urandom = ''Z-q!3'', cmd_status = (\<lambda>argv. 0)\<rparr>"

definition no_token :: invocation where
  "no_token = plain_invocation\<lparr>WANDB_TOKEN := None\<rparr>"

definition blank_name :: invocation where
  "blank_name = plain_invocation\<lparr>args := [''a b'']\<rparr>"

definition example_punct_label_ids :: "(string \<times> int) list" where
  "example_punct_label_ids = [(''O'', 0), ('','', 1), (''.'', 2), (''?'', 3)]"

definition example_capit_label_ids :: "(string \<times> int) list" where
  "example_capit_label_ids = [(''O'', 0), (''U'', 1)]"

definition plain_char :: "char \<Rightarrow> bool" where
  \<comment> \<open>the characters that \<^verbatim>\<open>repr\<close> leaves as they are inside single quotes\<close>
  "plain_char c = (let n = (of_char c :: nat) in 32 \<le> n \<and> n < 127 \<and> n \<noteq> 39 \<and> n \<noteq> 92)"

section \<open>Properties of the launch scripts\<close>

lemma concat_sublist: "x \<in> set xs \<Longrightarrow> sublist x (concat xs)"
  by (auto dest!: split_list)

lemma steps_save_state: "map step_of (save_state r) = [Print, Make_dir, Copy_tree, Upload]"
  by (simp add: save_state_def)

lemma steps_launch_durs:
  "map step_of (fst (launch_durs iv)) =
     (if bad_arguments iv \<or> \<not> setup_py iv \<or> expand (WANDB_TOKEN iv) = [] then [Print]
      else full_run)"
  by (simp add: launch_durs_def Let_def steps_save_state full_run_def durs_batch_run_def)

lemma steps_launch_asr:
  "map step_of (fst (launch_asr iv)) =
     (if bad_arguments iv \<or> \<not> setup_py iv then [Print] else full_run)"
  by (simp add: launch_asr_def Let_def steps_save_state full_run_def asr_batch_run_def)

lemma batch_size_value: "batch_size = 192"
  by (simp add: batch_size_def bash_mul_def wrap64_def GPU_MEM_def)

lemma total_steps_value: "total_steps = 23100"
  by (simp add: total_steps_def batch_size_value bash_mul_def bash_add_def bash_div_def
      wrap64_def DATASET_SIZE_def NUM_GPU_def NUM_EPOCHS_def signed_divide_int_def)

lemma warmup_flag_value: "warmup_flag = ''--warmup=462''"
  by (simp add: warmup_flag_def total_steps_value bash_div_def wrap64_def
      signed_divide_int_def show_int_def digits10.simps)

lemma plain_invocation_passes:
  "\<not> bad_arguments plain_invocation" "setup_py plain_invocation"
  "expand (WANDB_TOKEN plain_invocation) = ''tok''"
  "cmd_status plain_invocation = (\<lambda>argv. 0)"
  by (simp_all add: plain_invocation_def bad_arguments_def positional_def expand_def)

lemma no_token_passes:
  "\<not> bad_arguments no_token" "setup_py no_token" "expand (WANDB_TOKEN no_token) = []"
  "cmd_status no_token = (\<lambda>argv. 0)"
  by (simp_all add: no_token_def plain_invocation_def bad_arguments_def positional_def
      expand_def)

lemma launch_durs_full:
  assumes "\<not> bad_arguments iv" and "setup_py iv" and "expand (WANDB_TOKEN iv) \<noteq> []"
  shows "launch_durs iv =
    (Echo ''Updating source code...''
       # save_state (durs_id (positional (args iv) 1) (gen_num_id (urandom iv)))
       @ [Run (durs_batch_run (positional (args iv) 1)
                 (durs_cmd (durs_id (positional (args iv) 1) (gen_num_id (urandom iv)))
                    (expand (WANDB_TOKEN iv)) (positional (args iv) 1)))],
     cmd_status iv (durs_batch_run (positional (args iv) 1)
                 (durs_cmd (durs_id (positional (args iv) 1) (gen_num_id (urandom iv)))
                    (expand (WANDB_TOKEN iv)) (positional (args iv) 1))))"
  using assms by (simp add: launch_durs_def Let_def)

lemma launch_asr_full:
  assumes "\<not> bad_arguments iv" and "setup_py iv"
  shows "launch_asr iv =
    (Echo ''Updating source code...''
       # save_state (asr_id (positional (args iv) 1) (gen_num_id (urandom iv)))
       @ [Run (asr_batch_run (positional (args iv) 1)
                 (asr_cmd (asr_id (positional (args iv) 1) (gen_num_id (urandom iv)))))],
     cmd_status iv (asr_batch_run (positional (args iv) 1)
                 (asr_cmd (asr_id (positional (args iv) 1) (gen_num_id (urandom iv))))))"
  using assms by (simp add: launch_asr_def Let_def)

lemma launch_stops:
  "bad_arguments iv \<or> \<not> setup_py iv \<or> expand (WANDB_TOKEN iv) = [] \<Longrightarrow>
     \<exists>msg. launch_durs iv = ([Echo msg], 1)"
  "bad_arguments iv \<or> \<not> setup_py iv \<Longrightarrow> \<exists>msg. launch_asr iv = ([Echo msg], 1)"
  by (auto simp: launch_durs_def launch_asr_def)

lemma trace_shape:
  assumes "tr = fst (launch_durs iv) \<or> tr = fst (launch_asr iv)"
  shows "(\<exists>msg. tr = [Echo msg])
       \<or> (\<exists>run_id fire. tr = Echo ''Updating source code...'' # save_state run_id @ [Run fire]
            \<and> take 3 fire = [''ngc'', ''batch'', ''run''])"
  using assms
proof
  assume tr: "tr = fst (launch_durs iv)"
  show ?thesis
  proof (cases "bad_arguments iv \<or> \<not> setup_py iv \<or> expand (WANDB_TOKEN iv) = []")
    case True
    from launch_stops(1) [OF this] tr show ?thesis by auto
  next
    case False
    then have "tr = fst (launch_durs iv)" "\<not> bad_arguments iv" "setup_py iv"
      "expand (WANDB_TOKEN iv) \<noteq> []"
      using tr by simp_all
    then have "\<exists>run_id fire. tr = Echo ''Updating source code...'' # save_state run_id @ [Run fire]
            \<and> take 3 fire = [''ngc'', ''batch'', ''run'']"
      by (simp add: launch_durs_full durs_batch_run_def) blast
    then show ?thesis ..
  qed
next
  assume tr: "tr = fst (launch_asr iv)"
  show ?thesis
  proof (cases "bad_arguments iv \<or> \<not> setup_py iv")
    case True
    from launch_stops(2) [OF this] tr show ?thesis by auto
  next
    case False
    then have "tr = fst (launch_asr iv)" "\<not> bad_arguments iv" "setup_py iv"
      using tr by simp_all
    then have "\<exists>run_id fire. tr = Echo ''Updating source code...'' # save_state run_id @ [Run fire]
            \<and> take 3 fire = [''ngc'', ''batch'', ''run'']"
      by (simp add: launch_asr_full asr_batch_run_def) blast
    then show ?thesis ..
  qed
qed

lemma step_of_launch:
  assumes "take 3 fire = [''ngc'', ''batch'', ''run'']"
  shows "step_of (Run fire) = Launch"
proof -
  from assms have "take 1 (take 3 fire) = [''ngc'']" by simp
  then have "take 1 fire = [''ngc'']" by simp
  with assms show ?thesis by simp
qed

subsection \<open>The access token\<close>

text \<open>
  Claim C1 as stated, that each of the two scripts stops with a message and a non-zero
  status when \<^verbatim>\<open>WANDB_TOKEN\<close> is unset or empty, fails for the speech-recognition script:
  with the variable unset it goes through all its steps and launches the job.
\<close>

theorem launch_asr_runs_without_token:
  "expand (WANDB_TOKEN no_token) = [] \<and> snd (launch_asr no_token) = 0
   \<and> map step_of (fst (launch_asr no_token)) = full_run"
proof -
  have "snd (launch_asr no_token) = 0"
    by (simp add: launch_asr_def Let_def no_token_passes)
  then show ?thesis
    by (simp add: steps_launch_asr no_token_passes)
qed

text \<open>
  Claim C1, amended: the duration-prediction script, run with \<^verbatim>\<open>WANDB_TOKEN\<close> unset
  or empty, prints one message and exits with status 1 before any step that changes
  something: no directory is made, nothing is copied or uploaded, no job is launched
  (the message is the one about the token when the arguments and the directory are
  right; \<^verbatim>\<open>basename\<close> runs only to build the usage message). The speech-recognition script
  never reads the variable.
\<close>

theorem token_required_by_launch_durs_only:
  "(expand (WANDB_TOKEN iv) = [] \<longrightarrow>
      launch_durs iv =
        ([Echo (if bad_arguments iv then usage iv
                else if \<not> setup_py iv then ''Script should be ran from project root.''
                else ''Please, provide WanDB token.'')], 1))
   \<and> launch_asr (iv\<lparr>WANDB_TOKEN := t\<rparr>) = launch_asr iv"
  by (simp add: launch_durs_def launch_asr_def bad_arguments_def usage_def)

theorem token_required_by_launch_durs_only_witness:
  "expand (WANDB_TOKEN no_token) = []
   \<and> launch_durs no_token = ([Echo ''Please, provide WanDB token.''], 1)
   \<and> launch_asr (no_token\<lparr>WANDB_TOKEN := Some ''tok''\<rparr>) = launch_asr no_token"
  using token_required_by_launch_durs_only [of no_token "Some ''tok''"]
  by (simp add: no_token_passes)

subsection \<open>Batch size, total steps and warm-up\<close>

lemma filter_save_state:
  "filter (\<lambda>a. step_of a = Launch) (save_state run_id) = []"
  by (simp add: save_state_def)

lemma commandlines_run:
  assumes "step_of (Run fire) = Launch"
  shows "commandlines (Echo m # save_state run_id @ [Run fire]) =
           [launch_flag ''--commandline'' (Run fire)]"
  using assms
  by (simp add: commandlines_def filter_save_state del: step_of.simps(2))

lemma durs_batch_run_flags:
  "step_of (Run (durs_batch_run name_id cmd)) = Launch"
  "launch_flag ''--commandline'' (Run (durs_batch_run name_id cmd)) = Some cmd"
  by (simp_all add: durs_batch_run_def launch_flag_def)

lemma durs_heredoc_flags:
  "durs_heredoc run_id token name_id =
     take 7 (durs_heredoc run_id token name_id)
     @ [''--batch_size=192 '', ''--train_freq=10 '', ''--eval_freq=100 '', ''--warmup=462 '',
        ''--num_epochs=100 '']
     @ drop 12 (durs_heredoc run_id token name_id)"
  by (simp add: durs_heredoc_def batch_size_value warmup_flag_value NUM_EPOCHS_def
      show_int_def digits10.simps)

lemma durs_cmd_flags:
  "sublist ''--batch_size=192 --train_freq=10 --eval_freq=100 --warmup=462 --num_epochs=100 ''
     (durs_cmd run_id token name_id)"
proof -
  have "durs_cmd run_id token name_id =
          concat (take 7 (durs_heredoc run_id token name_id))
          @ ''--batch_size=192 --train_freq=10 --eval_freq=100 --warmup=462 --num_epochs=100 ''
          @ concat (drop 12 (durs_heredoc run_id token name_id))"
    unfolding durs_cmd_def by (subst durs_heredoc_flags) simp
  then show ?thesis
    by (simp only: sublist_appendI)
qed

text \<open>
  Claim C2: with the constants of the duration-prediction script, the batch size is
  \<open>GPU_MEM * 6\<close>, the total number of steps is
  \<open>(DATASET_SIZE div (batch_size * NUM_GPU) + 1) * NUM_EPOCHS\<close> in exact integer
  arithmetic (the 64-bit arithmetic of the shell does not overflow), and the warm-up flag
  is the total number of steps divided by 50; the values are 192, 23100 and 462. A run
  that passes the three checks launches one job, with \<^verbatim>\<open>ngc batch run\<close> as its last step,
  and the command line given to that job holds \<^verbatim>\<open>--batch_size=192\<close> and \<^verbatim>\<open>--warmup=462\<close>
  among its flags.
\<close>

theorem batch_size_and_total_steps:
  assumes "\<not> bad_arguments iv" and "setup_py iv" and "expand (WANDB_TOKEN iv) \<noteq> []"
  shows "batch_size = GPU_MEM * 6
   \<and> total_steps = (DATASET_SIZE div (batch_size * NUM_GPU) + 1) * NUM_EPOCHS
   \<and> batch_size = 192 \<and> total_steps = 23100 \<and> total_steps div 50 = 462
   \<and> warmup_flag = ''--warmup='' @ show_int (total_steps div 50)
   \<and> (\<exists>cmd. commandlines (fst (launch_durs iv)) = [Some cmd]
          \<and> launch_flag ''--commandline'' (last (fst (launch_durs iv))) = Some cmd
          \<and> step_of (last (fst (launch_durs iv))) = Launch
          \<and> sublist (''--batch_size='' @ show_int batch_size @ '' '') cmd
          \<and> sublist (warmup_flag @ '' '') cmd
          \<and> sublist
               ''--batch_size=192 --train_freq=10 --eval_freq=100 --warmup=462 --num_epochs=100 ''
               cmd)"
proof -
  have b: "batch_size = GPU_MEM * 6"
    by (simp add: batch_size_value GPU_MEM_def)
  have t: "total_steps = (DATASET_SIZE div (batch_size * NUM_GPU) + 1) * NUM_EPOCHS"
    by (simp add: total_steps_value batch_size_value DATASET_SIZE_def NUM_GPU_def NUM_EPOCHS_def)
  have w: "warmup_flag = ''--warmup='' @ show_int (total_steps div 50)"
    by (simp add: warmup_flag_value total_steps_value show_int_def digits10.simps)
  have v: "total_steps div 50 = 462"
    by (simp add: total_steps_value)
  define cmd where "cmd = durs_cmd (durs_id (positional (args iv) 1) (gen_num_id (urandom iv)))
    (expand (WANDB_TOKEN iv)) (positional (args iv) 1)"
  have s1: "sublist (warmup_flag @ '' '') cmd"
    unfolding cmd_def durs_cmd_def by (rule concat_sublist) (simp add: durs_heredoc_def)
  have s2: "sublist (''--batch_size='' @ show_int batch_size @ '' '') cmd"
    unfolding cmd_def durs_cmd_def by (rule concat_sublist) (simp add: durs_heredoc_def)
  have s3: "sublist
       ''--batch_size=192 --train_freq=10 --eval_freq=100 --warmup=462 --num_epochs=100 '' cmd"
    unfolding cmd_def by (rule durs_cmd_flags)
  have tr: "fst (launch_durs iv) =
      Echo ''Updating source code...''
       # save_state (durs_id (positional (args iv) 1) (gen_num_id (urandom iv)))
       @ [Run (durs_batch_run (positional (args iv) 1) cmd)]"
    unfolding cmd_def by (simp add: launch_durs_full [OF assms])
  have c: "commandlines (fst (launch_durs iv)) = [Some cmd]"
    unfolding tr by (simp add: commandlines_run durs_batch_run_flags del: step_of.simps(2))
  have l: "last (fst (launch_durs iv)) = Run (durs_batch_run (positional (args iv) 1) cmd)"
    unfolding tr by simp
  have "launch_flag ''--commandline'' (last (fst (launch_durs iv))) = Some cmd"
    "step_of (last (fst (launch_durs iv))) = Launch"
    unfolding l by (rule durs_batch_run_flags)+
  with b t w v s1 s2 s3 c show ?thesis
    by (simp only: batch_size_value total_steps_value simp_thms) blast
qed

theorem batch_size_and_total_steps_witness:
  "\<not> bad_arguments plain_invocation \<and> setup_py plain_invocation
   \<and> expand (WANDB_TOKEN plain_invocation) \<noteq> []
   \<and> (\<exists>cmd. commandlines (fst (launch_durs plain_invocation)) = [Some cmd]
          \<and> sublist ''--batch_size=192 '' cmd \<and> sublist ''--warmup=462 '' cmd)"
proof -
  have t: "expand (WANDB_TOKEN plain_invocation) \<noteq> []"
    by (simp add: plain_invocation_passes)
  from batch_size_and_total_steps [OF plain_invocation_passes(1,2) t]
  show ?thesis
    using plain_invocation_passes(1,2) t
    by (simp add: batch_size_value warmup_flag_value show_int_def digits10.simps) blast
qed

subsection \<open>Wrong arguments, wrong directory\<close>

text \<open>
  Claim C5: a launch script called with no argument or with more than one, or from a
  directory without \<^verbatim>\<open>setup.py\<close>, prints one message (the usage, or the one about the
  project root) and exits with status 1; its run holds no command at all, so no directory
  is made, nothing is copied or uploaded and no job is launched.
\<close>

theorem bad_invocation_stops_before_any_command:
  "length (args iv) \<noteq> 1 \<or> \<not> setup_py iv \<Longrightarrow>
     launch_durs iv =
       ([Echo (if bad_arguments iv then usage iv
               else ''Script should be ran from project root.'')], 1)
     \<and> launch_asr iv =
       ([Echo (if bad_arguments iv then usage iv
               else ''Script should be runned from project root.'')], 1)
     \<and> (\<forall>a \<in> set (fst (launch_durs iv)) \<union> set (fst (launch_asr iv)).
           step_of a \<notin> {Make_dir, Copy_tree, Upload, Launch})"
  by (auto simp add: launch_durs_def launch_asr_def bad_arguments_def)

theorem bad_invocation_stops_before_any_command_witness:
  "length (args (plain_invocation\<lparr>args := []\<rparr>)) \<noteq> 1
   \<and> launch_durs (plain_invocation\<lparr>args := []\<rparr>)
       = ([Echo ''Usage: ./launch.sh [experiment name id]''], 1)
   \<and> launch_asr (plain_invocation\<lparr>args := [''a'', ''b'']\<rparr>)
       = ([Echo ''Usage: ./launch.sh [experiment name id]''], 1)
   \<and> launch_asr (plain_invocation\<lparr>setup_py := False\<rparr>)
       = ([Echo ''Script should be runned from project root.''], 1)"
  using bad_invocation_stops_before_any_command [of "plain_invocation\<lparr>args := []\<rparr>"]
    bad_invocation_stops_before_any_command [of "plain_invocation\<lparr>args := [''a'', ''b'']\<rparr>"]
    bad_invocation_stops_before_any_command [of "plain_invocation\<lparr>setup_py := False\<rparr>"]
  by (simp add: plain_invocation_def bad_arguments_def positional_def usage_def)

subsection \<open>The order of the steps\<close>

text \<open>
  Claim C7: a run of either script is one message, or the two messages followed by
  \<^verbatim>\<open>mkdir\<close>, \<^verbatim>\<open>rsync\<close>, \<^verbatim>\<open>ngc workspace upload\<close> and \<^verbatim>\<open>ngc batch run\<close> in this order. So
  wherever a job is launched, the copy of the working tree and then the upload have come
  before it; and the directory made is the one \<^verbatim>\<open>rsync\<close> fills and the upload sends.
\<close>

theorem upload_precedes_launch:
  "(tr = fst (launch_durs iv) \<or> tr = fst (launch_asr iv)) \<longrightarrow>
     (map step_of tr = [Print] \<or> map step_of tr = full_run)
     \<and> (\<forall>k < length tr. step_of (tr ! k) = Launch \<longrightarrow>
           (\<exists>h i. h < i \<and> i < k \<and> step_of (tr ! h) = Copy_tree \<and> step_of (tr ! i) = Upload))
     \<and> (map step_of tr = full_run \<longrightarrow>
           (\<exists>d. tr ! 2 = Run [''mkdir'', ''-p'', d]
              \<and> tr ! 3 = Run [''rsync'', ''-r'', ''.'', d, ''--exclude'', ''.git'',
                              ''--filter=:- .gitignore'']
              \<and> upload_flag ''--source'' (tr ! 4) = Some d))"
proof (intro impI)
  assume tr: "tr = fst (launch_durs iv) \<or> tr = fst (launch_asr iv)"
  from trace_shape [OF tr] consider
    (stop) msg where "tr = [Echo msg]"
  | (full) run_id fire where
      "tr = Echo ''Updating source code...'' # save_state run_id @ [Run fire]"
      "take 3 fire = [''ngc'', ''batch'', ''run'']"
    by blast
  then show "(map step_of tr = [Print] \<or> map step_of tr = full_run)
     \<and> (\<forall>k < length tr. step_of (tr ! k) = Launch \<longrightarrow>
           (\<exists>h i. h < i \<and> i < k \<and> step_of (tr ! h) = Copy_tree \<and> step_of (tr ! i) = Upload))
     \<and> (map step_of tr = full_run \<longrightarrow>
           (\<exists>d. tr ! 2 = Run [''mkdir'', ''-p'', d]
              \<and> tr ! 3 = Run [''rsync'', ''-r'', ''.'', d, ''--exclude'', ''.git'',
                              ''--filter=:- .gitignore'']
              \<and> upload_flag ''--source'' (tr ! 4) = Some d))"
  proof cases
    case stop
    then show ?thesis by (simp add: full_run_def)
  next
    case full
    have launch: "step_of (Run fire) = Launch"
      by (rule step_of_launch [OF full(2)])
    have steps: "map step_of tr = full_run"
      unfolding full(1)
      by (simp add: steps_save_state full_run_def launch del: step_of.simps(2))
    have len: "length tr = 6"
      by (simp add: full(1) save_state_def)
    have order: "\<exists>h i. h < i \<and> i < k \<and> step_of (tr ! h) = Copy_tree \<and> step_of (tr ! i) = Upload"
      if k: "k < length tr" "step_of (tr ! k) = Launch" for k
    proof -
      from k(1) len have "k = 0 \<or> k = 1 \<or> k = 2 \<or> k = 3 \<or> k = 4 \<or> k = 5" by arith
      with k(2) have k5: "k = 5"
        by (elim disjE) (simp_all add: full(1) save_state_def)
      have "step_of (tr ! 3) = Copy_tree" "step_of (tr ! 4) = Upload"
        by (simp_all add: full(1) save_state_def)
      with k5 show ?thesis
        by (intro exI [of _ 3] exI [of _ 4]) simp
    qed
    have dir: "\<exists>d. tr ! 2 = Run [''mkdir'', ''-p'', d]
              \<and> tr ! 3 = Run [''rsync'', ''-r'', ''.'', d, ''--exclude'', ''.git'',
                              ''--filter=:- .gitignore'']
              \<and> upload_flag ''--source'' (tr ! 4) = Some d"
      by (simp add: full(1) save_state_def upload_flag_def)
    from steps order dir show ?thesis by blast
  qed
qed

theorem upload_precedes_launch_witness:
  "map step_of (fst (launch_durs plain_invocation)) = full_run
   \<and> map step_of (fst (launch_asr plain_invocation)) = full_run
   \<and> (\<exists>h i. h < i \<and> i < 5 \<and> step_of (fst (launch_asr plain_invocation) ! h) = Copy_tree
         \<and> step_of (fst (launch_asr plain_invocation) ! i) = Upload)"
proof -
  have d: "map step_of (fst (launch_durs plain_invocation)) = full_run"
    by (simp add: steps_launch_durs plain_invocation_passes)
  have a: "map step_of (fst (launch_asr plain_invocation)) = full_run"
    by (simp add: steps_launch_asr plain_invocation_passes)
  then have "length (map step_of (fst (launch_asr plain_invocation))) = 6"
    "map step_of (fst (launch_asr plain_invocation)) ! 5 = Launch"
    by (simp_all add: full_run_def)
  then have "5 < length (fst (launch_asr plain_invocation))"
    "step_of (fst (launch_asr plain_invocation) ! 5) = Launch"
    by simp_all
  with upload_precedes_launch [of "fst (launch_asr plain_invocation)" plain_invocation] d a
  show ?thesis by blast
qed

subsection \<open>An empty argument\<close>

text \<open>
  Claim C10: a launch script called with one argument that is the empty string prints
  the usage and exits with status 1, exactly as it does when called with no argument.
\<close>

theorem empty_argument_rejected:
  "args iv = [[]] \<Longrightarrow>
     launch_durs iv = ([Echo (usage iv)], 1) \<and> launch_asr iv = ([Echo (usage iv)], 1)
     \<and> launch_durs iv = launch_durs (iv\<lparr>args := []\<rparr>)
     \<and> launch_asr iv = launch_asr (iv\<lparr>args := []\<rparr>)"
  by (simp add: launch_durs_def launch_asr_def bad_arguments_def positional_def usage_def)

theorem empty_argument_rejected_witness:
  "args (plain_invocation\<lparr>args := [[]]\<rparr>) = [[]]
   \<and> launch_durs (plain_invocation\<lparr>args := [[]]\<rparr>)
       = ([Echo ''Usage: ./launch.sh [experiment name id]''], 1)
   \<and> launch_asr (plain_invocation\<lparr>args := [[]]\<rparr>)
       = ([Echo ''Usage: ./launch.sh [experiment name id]''], 1)"
  using empty_argument_rejected [of "plain_invocation\<lparr>args := [[]]\<rparr>"]
  by (simp add: plain_invocation_def usage_def)

subsection \<open>Where the upload goes and what the container copies\<close>

text \<open>
  Claim C8: the upload destination \<^verbatim>\<open>nemos/<id>\<close> and the source of \<^verbatim>\<open>cp -R\<close> in the
  container agree for every experiment name. The scripts give the run id to the upload as
  one quoted argument, but write it as it is, without quotes, into the text of the
  container command. Here are both for the experiment name \<^verbatim>\<open>a b\<close>: the upload goes to the
  one directory \<^verbatim>\<open>nemos/durs-lj_a b_Zq3\<close> (\<^verbatim>\<open>nemos/a b_Zq3\<close> for the speech-recognition script),
  and the command line holds \<^verbatim>\<open>cp -R /ws/nemos/durs-lj_a b_Zq3 /nemo\<close>, whose words are
  \<^verbatim>\<open>cp\<close>, \<^verbatim>\<open>-R\<close> and three paths.
\<close>

theorem copy_source_differs_for_blank_name:
  "uploaded_to (fst (launch_durs blank_name)) = [Some ''nemos/durs-lj_a b_Zq3'']
   \<and> commandlines (fst (launch_durs blank_name)) =
       [Some (''nvidia-smi && apt-get update && apt-get install -y libsndfile1 ''
          @ ''&& pip install -U librosa && cp -R /ws/nemos/durs-lj_a b_Zq3 /nemo && cd /nemo ''
          @ ''&& pip install .[all] && pip install -U wandb && wandb login tok ''
          @ ''&& python -m torch.distributed.launch --nproc_per_node=8 ''
          @ ''examples/tts/fasterspeech_durs.py --amp_opt_level=O2 ''
          @ ''--model_config=examples/tts/configs/fasterspeech-durs-lj.yaml ''
          @ ''--batch_size=192 --train_freq=10 --eval_freq=100 --warmup=462 --num_epochs=100 ''
          @ ''--work_dir=/result --wdb_name=a b --wdb_tags=durs,ljspeech,opt ''
          @ ''--train_dataset=/data/libritts/train.json ''
          @ ''--train_durs=/data/librimeta/durs/libritts_300epochs-qn15x5-eqlen_all-1s_22k/train-all.npy ''
          @ ''--eval_names eval test --eval_datasets /data/ljspeech/split3/eval.json ''
          @ ''/data/ljspeech/split3/test.json --eval_durs ''
          @ ''/data/librimeta/durs/ljspeech_300epochs-qn15x5-eqlen_all-1s_split3/eval.npy ''
          @ ''/data/librimeta/durs/ljspeech_300epochs-qn15x5-eqlen_all-1s_split3/test.npy'')]
   \<and> uploaded_to (fst (launch_asr blank_name)) = [Some ''nemos/a b_Zq3'']
   \<and> commandlines (fst (launch_asr blank_name)) =
       [Some (''nvidia-smi && apt-get update && apt-get install -y libsndfile1 ''
          @ ''&& cp -R /ws/nemos/a b_Zq3 /nemo && cd /nemo && pip install .[all] ''
          @ ''&& python -m torch.distributed.launch --nproc_per_node=8 ''
          @ ''examples/asr/quartznet.py --num_epochs=150 --eval_batch_size=32 ''
          @ ''--model_config=examples/asr/configs/quartznet15x5-libritts-durs.yaml ''
          @ ''--checkpoint_dir=/result --checkpoint_save_freq=10000 ''
          @ ''--train_dataset=/manifests/libritts/train-all.json --eval_datasets ''
          @ ''/manifests/libritts/dev-clean.json /manifests/libritts/dev-other.json ''
          @ ''/manifests/libritts/test-clean.json /manifests/libritts/test-other.json'')]"
  by code_simp

section \<open>Properties of the notebooks\<close>

subsection \<open>The checkpoint cells\<close>

lemma repr_char_plain: "plain_char c \<Longrightarrow> repr_char CHR 0x27 c = [c]"
  by (auto simp: plain_char_def repr_char_def Let_def)

lemma concat_repr_plain:
  "\<forall>c \<in> set s. plain_char c \<Longrightarrow> concat (map (repr_char CHR 0x27) s) = s"
  by (induction s) (simp_all add: repr_char_plain)

lemma py_repr_plain:
  assumes "\<forall>c \<in> set s. plain_char c"
  shows "py_repr s = CHR 0x27 # s @ [CHR 0x27]"
proof -
  have "CHR 0x27 \<notin> set s"
    using assms by (auto simp: plain_char_def)
  then show ?thesis
    by (simp add: py_repr_def Let_def concat_repr_plain [OF assms])
qed

lemma message_plain:
  assumes "\<forall>c \<in> set p. plain_char c"
  shows "message (OSError ENOENT (strerror ENOENT) p) =
           ''[Errno 2] No such file or directory: '' @ [CHR 0x27] @ p @ [CHR 0x27]"
  by (simp add: py_repr_plain [OF assms] ENOENT_def strerror_def show_int_def digits10.simps)

lemma qa_paths_biobert:
  "qa_paths ''biobert'' =
     [''./checkpoints/biobert/qa_squad/BERT.pt'',
      ''./checkpoints/biobert/qa_squad/TokenClassifier.pt'',
      ''./checkpoints/biobert/qa_squad/bert_config.json'']"
  by (simp add: qa_paths_def qa_base_checkpoint_path_def path_join_def)

lemma qa_paths_biomegatron:
  "qa_paths ''biomegatron'' =
     [''./checkpoints/biomegatron/qa_squad/BERT.pt'',
      ''./checkpoints/biomegatron/qa_squad/TokenClassifier.pt'',
      ''./checkpoints/biomegatron/qa_squad/bert_config.json'']"
  by (simp add: qa_paths_def qa_base_checkpoint_path_def path_join_def)

lemma re_paths_biobert:
  "re_paths ''biobert'' =
     [''./checkpoints/biobert/BERT.pt'', ''./checkpoints/biobert/bert_config.json'']"
  by (simp add: re_paths_def re_base_checkpoint_path_def path_join_def)

lemma re_paths_biomegatron:
  "re_paths ''biomegatron'' =
     [''./checkpoints/biomegatron/BERT.pt'', ''./checkpoints/biomegatron/bert_config.json'']"
  by (simp add: re_paths_def re_base_checkpoint_path_def path_join_def)

lemma checked_paths_plain:
  assumes "model_type = ''biobert'' \<or> model_type = ''biomegatron''"
  shows "\<forall>p \<in> set (qa_paths model_type) \<union> set (re_paths model_type). \<forall>c \<in> set p. plain_char c"
  using assms
  by (auto simp: qa_paths_biobert qa_paths_biomegatron re_paths_biobert re_paths_biomegatron
      plain_char_def)

lemma qa_cell_find:
  assumes "model_type = ''biobert'' \<or> model_type = ''biomegatron''"
  shows "qa_checkpoint_cell exists model_type =
     (case find (\<lambda>p. \<not> exists p) (qa_paths model_type) of
        None \<Rightarrow> Inr (qa_paths model_type)
      | Some p \<Rightarrow> Inl (OSError ENOENT (strerror ENOENT) p))"
  using assms
  by (auto simp: qa_checkpoint_cell_def qa_paths_def dict_get_def qa_base_checkpoint_path_def
      Let_def)

lemma re_cell_find:
  assumes "model_type = ''biobert'' \<or> model_type = ''biomegatron''"
  shows "re_checkpoint_cell exists model_type =
     (case find (\<lambda>p. \<not> exists p) (re_paths model_type) of
        None \<Rightarrow> Inr (re_paths model_type)
      | Some p \<Rightarrow> Inl (OSError ENOENT (strerror ENOENT) p))"
  using assms
  by (auto simp: re_checkpoint_cell_def re_paths_def dict_get_def re_base_checkpoint_path_def
      Let_def)


text \<open>
  Claim C4: for either model type, a checkpoint cell raises \<open>OSError\<close> with errno ENOENT
  and the path as file name for the first of its paths that does not exist (encoder
  weights, head weights in the question-answering notebook, configuration file), and
  finishes when all of them exist. The message of the error is
  \<^verbatim>\<open>[Errno 2] No such file or directory: '<path>'\<close>, which contains the path.
\<close>

theorem checkpoint_cells_raise_file_not_found:
  assumes "model_type = ''biobert'' \<or> model_type = ''biomegatron''"
  shows "qa_checkpoint_cell exists model_type =
           (case find (\<lambda>p. \<not> exists p) (qa_paths model_type) of
              None \<Rightarrow> Inr (qa_paths model_type)
            | Some p \<Rightarrow> Inl (OSError ENOENT (strerror ENOENT) p))
       \<and> re_checkpoint_cell exists model_type =
           (case find (\<lambda>p. \<not> exists p) (re_paths model_type) of
              None \<Rightarrow> Inr (re_paths model_type)
            | Some p \<Rightarrow> Inl (OSError ENOENT (strerror ENOENT) p))
       \<and> ((\<forall>p \<in> set (qa_paths model_type). exists p) \<longrightarrow>
             qa_checkpoint_cell exists model_type = Inr (qa_paths model_type))
       \<and> ((\<forall>p \<in> set (re_paths model_type). exists p) \<longrightarrow>
             re_checkpoint_cell exists model_type = Inr (re_paths model_type))
       \<and> ((\<exists>p \<in> set (qa_paths model_type). \<not> exists p) \<longrightarrow>
             (\<exists>p \<in> set (qa_paths model_type). \<not> exists p
                \<and> qa_checkpoint_cell exists model_type = Inl (OSError ENOENT (strerror ENOENT) p)))
       \<and> ((\<exists>p \<in> set (re_paths model_type). \<not> exists p) \<longrightarrow>
             (\<exists>p \<in> set (re_paths model_type). \<not> exists p
                \<and> re_checkpoint_cell exists model_type = Inl (OSError ENOENT (strerror ENOENT) p)))
       \<and> (\<forall>p \<in> set (qa_paths model_type) \<union> set (re_paths model_type).
             file_not_found (OSError ENOENT (strerror ENOENT) p)
             \<and> message (OSError ENOENT (strerror ENOENT) p) =
                 ''[Errno 2] No such file or directory: '' @ [CHR 0x27] @ p @ [CHR 0x27]
             \<and> sublist p (message (OSError ENOENT (strerror ENOENT) p)))
       \<and> length (qa_paths model_type) = 3 \<and> length (re_paths model_type) = 2"
proof -
  have m: "message (OSError ENOENT (strerror ENOENT) p) =
             ''[Errno 2] No such file or directory: '' @ [CHR 0x27] @ p @ [CHR 0x27]"
    if "p \<in> set (qa_paths model_type) \<union> set (re_paths model_type)" for p
    using checked_paths_plain [OF assms] that by (intro message_plain) blast
  have s: "sublist p (message (OSError ENOENT (strerror ENOENT) p))"
    if "p \<in> set (qa_paths model_type) \<union> set (re_paths model_type)" for p
    unfolding m [OF that] by (metis append.assoc sublist_appendI)
  have l: "length (qa_paths model_type) = 3 \<and> length (re_paths model_type) = 2"
    using assms
    by (auto simp: qa_paths_biobert qa_paths_biomegatron re_paths_biobert re_paths_biomegatron)
  have all_qa: "qa_checkpoint_cell exists model_type = Inr (qa_paths model_type)"
    if "\<forall>p \<in> set (qa_paths model_type). exists p"
  proof -
    from that have "find (\<lambda>p. \<not> exists p) (qa_paths model_type) = None"
      by (simp add: find_None_iff)
    then show ?thesis by (simp add: qa_cell_find [OF assms])
  qed
  have all_re: "re_checkpoint_cell exists model_type = Inr (re_paths model_type)"
    if "\<forall>p \<in> set (re_paths model_type). exists p"
  proof -
    from that have "find (\<lambda>p. \<not> exists p) (re_paths model_type) = None"
      by (simp add: find_None_iff)
    then show ?thesis by (simp add: re_cell_find [OF assms])
  qed
  have some_qa: "\<exists>p \<in> set (qa_paths model_type). \<not> exists p
         \<and> qa_checkpoint_cell exists model_type = Inl (OSError ENOENT (strerror ENOENT) p)"
    if "\<exists>p \<in> set (qa_paths model_type). \<not> exists p"
  proof -
    from that obtain p where p: "find (\<lambda>p. \<not> exists p) (qa_paths model_type) = Some p"
      by (cases "find (\<lambda>p. \<not> exists p) (qa_paths model_type)") (auto simp: find_None_iff)
    then have "p \<in> set (qa_paths model_type)" "\<not> exists p"
      by (auto simp: find_Some_iff)
    with p show ?thesis by (auto simp: qa_cell_find [OF assms])
  qed
  have some_re: "\<exists>p \<in> set (re_paths model_type). \<not> exists p
         \<and> re_checkpoint_cell exists model_type = Inl (OSError ENOENT (strerror ENOENT) p)"
    if "\<exists>p \<in> set (re_paths model_type). \<not> exists p"
  proof -
    from that obtain p where p: "find (\<lambda>p. \<not> exists p) (re_paths model_type) = Some p"
      by (cases "find (\<lambda>p. \<not> exists p) (re_paths model_type)") (auto simp: find_None_iff)
    then have "p \<in> set (re_paths model_type)" "\<not> exists p"
      by (auto simp: find_Some_iff)
    with p show ?thesis by (auto simp: re_cell_find [OF assms])
  qed
  have f: "file_not_found (OSError ENOENT (strerror ENOENT) p)" for p
    by simp
  from qa_cell_find [OF assms] re_cell_find [OF assms] all_qa all_re some_qa some_re m s l f
  show ?thesis by blast
qed

theorem checkpoint_cells_raise_file_not_found_witness:
  "qa_checkpoint_cell (\<lambda>p. p \<noteq> ''./checkpoints/biobert/qa_squad/TokenClassifier.pt'') ''biobert''
     = Inl (OSError 2 ''No such file or directory''
              ''./checkpoints/biobert/qa_squad/TokenClassifier.pt'')
   \<and> re_checkpoint_cell (\<lambda>p. p \<noteq> ''./checkpoints/biobert/qa_squad/TokenClassifier.pt'') ''biobert''
     = Inr [''./checkpoints/biobert/BERT.pt'', ''./checkpoints/biobert/bert_config.json'']
   \<and> message (OSError 2 ''No such file or directory''
                 ''./checkpoints/biobert/qa_squad/TokenClassifier.pt'')
     = ''[Errno 2] No such file or directory: ''
       @ [CHR 0x27] @ ''./checkpoints/biobert/qa_squad/TokenClassifier.pt'' @ [CHR 0x27]"
  using checkpoint_cells_raise_file_not_found
    [of "''biobert''" "\<lambda>p. p \<noteq> ''./checkpoints/biobert/qa_squad/TokenClassifier.pt''"]
  by (simp add: qa_paths_biobert re_paths_biobert ENOENT_def strerror_def)

subsection \<open>Decoding\<close>






lemma word_loop_in_range:
  "\<forall>(j, w) \<in> set jws. j < length pp \<and> j < length cp \<Longrightarrow>
   word_loop p2l c2l pp cp jws out \<noteq> Inl IndexError"
  by (induction jws arbitrary: out)
    (auto simp: np_index_def dict_get_def Let_def split: sum.splits if_splits option.splits)














subsection \<open>The indices of the word loop\<close>

text \<open>
  Claim C9: when the masked punctuation and capitalization predictions are both as long
  as the list of words, every index \<open>j\<close> that the loop over the words uses is in range
  for both arrays, and the loop does not end in an \<open>IndexError\<close>.
\<close>

theorem word_loop_index_in_bounds:
  assumes "length punct_pred = length words" and "length capit_pred = length words"
  shows "(\<forall>(j, w) \<in> set (enumerate 0 words).
            np_index punct_pred j = Inr (punct_pred ! j)
            \<and> np_index capit_pred j = Inr (capit_pred ! j))
         \<and> word_loop punct_ids_to_labels capit_ids_to_labels punct_pred capit_pred
               (enumerate 0 words) output \<noteq> Inl IndexError"
proof -
  have r: "\<forall>(j, w) \<in> set (enumerate 0 words). j < length punct_pred \<and> j < length capit_pred"
    using assms by (auto simp: in_set_enumerate_eq)
  then have "\<forall>(j, w) \<in> set (enumerate 0 words).
            np_index punct_pred j = Inr (punct_pred ! j)
            \<and> np_index capit_pred j = Inr (capit_pred ! j)"
    by (auto simp: np_index_def)
  with word_loop_in_range [OF r] show ?thesis by blast
qed

theorem word_loop_index_in_bounds_witness:
  "length [1, 2 :: int] = length [''yes'', ''please'']
   \<and> np_index [1, 2 :: int] 1 = Inr 2 \<and> np_index [1, 0 :: int] 1 = Inr 0
   \<and> word_loop (ids_to_labels example_punct_label_ids) (ids_to_labels example_capit_label_ids) [1, 2] [1, 0]
        (enumerate 0 [''yes'', ''please'']) [] \<noteq> Inl IndexError"
  using word_loop_index_in_bounds
    [of "[1, 2]" "[''yes'', ''please'']" "[1, 0]" "ids_to_labels example_punct_label_ids"
        "ids_to_labels example_capit_label_ids" "[]"]
  by (simp add: np_index_def)

subsection \<open>The exceptions the notebooks raise\<close>







end
